theory Spec2Isabelle
  imports Complex_Main
begin

section \<open>Numbers, exceptions and arrays\<close>

text \<open>
  The program is \<^verbatim>\<open>freesas/model.py\<close>, the class \<^verbatim>\<open>SASModel\<close> on numpy arrays.
  A float64 is idealised as a \<^typ>\<open>real\<close>: rounding and overflow are not followed. The two
  places where the program makes a value that is not a finite number from finite input are
  kept: the mean of an empty array (NaN) and the division by a zero fineness in
  \<^verbatim>\<open>dist\<close> (numpy gives inf with a warning, and inf * 0 is NaN). Signed zeros are
  not distinguished; the only divisor of the program is a product \<^verbatim>\<open>n*f*f\<close>.
  The optional compiled module \<^verbatim>\<open>_distance\<close> is absent (\<^verbatim>\<open>_distance = None\<close>), so
  every call takes the pure-Python branch. The interpreter is Python 3 on a POSIX system.
\<close>

text \<open>
  What stops a call. The first five are the Python exceptions the code can raise; the next
  two are the errors the specification names, which no function below returns.
  \<open>NaNArray\<close> is not an exception: it marks a call after which Python goes on with arrays
  whose entries are NaN, which this real-valued model does not follow; the state of the
  object after a stopped call is not followed either.
\<close>

datatype exn = AttributeError | TypeError | IndexError | ValueError | LinAlgError
  | EmptyModelError | DegenerateModelError
  | NaNArray

datatype np_float = Fin real | PInf | NInf | NaN

text \<open>\<^verbatim>\<open>1./x\<close> for a numpy float64 \<open>x\<close>: no ZeroDivisionError, the quotient is inf.\<close>

definition np_recip :: "real \<Rightarrow> np_float" where
  "np_recip x = (if x = 0 then PInf else Fin (1 / x))"

fun np_mul :: "np_float \<Rightarrow> np_float \<Rightarrow> np_float" where
  "np_mul NaN _ = NaN"
| "np_mul _ NaN = NaN"
| "np_mul (Fin a) (Fin b) = Fin (a * b)"
| "np_mul (Fin a) PInf = (if a = 0 then NaN else if 0 < a then PInf else NInf)"
| "np_mul (Fin a) NInf = (if a = 0 then NaN else if 0 < a then NInf else PInf)"
| "np_mul PInf (Fin b) = (if b = 0 then NaN else if 0 < b then PInf else NInf)"
| "np_mul NInf (Fin b) = (if b = 0 then NaN else if 0 < b then NInf else PInf)"
| "np_mul PInf PInf = PInf"
| "np_mul PInf NInf = NInf"
| "np_mul NInf PInf = NInf"
| "np_mul NInf NInf = PInf"

fun np_add :: "np_float \<Rightarrow> np_float \<Rightarrow> np_float" where
  "np_add NaN _ = NaN"
| "np_add _ NaN = NaN"
| "np_add (Fin a) (Fin b) = Fin (a + b)"
| "np_add (Fin a) PInf = PInf"
| "np_add (Fin a) NInf = NInf"
| "np_add PInf (Fin b) = PInf"
| "np_add NInf (Fin b) = NInf"
| "np_add PInf PInf = PInf"
| "np_add NInf NInf = NInf"
| "np_add PInf NInf = NaN"
| "np_add NInf PInf = NaN"

text \<open>\<^verbatim>\<open>x**0.5\<close> on a float64 scalar (the C function pow).\<close>

fun np_pow_half :: "np_float \<Rightarrow> np_float" where
  "np_pow_half (Fin a) = (if a < 0 then NaN else Fin (sqrt a))"
| "np_pow_half PInf = PInf"
| "np_pow_half NInf = PInf"
| "np_pow_half NaN = NaN"

text \<open>
  An atom is a row of the \<open>(n, 3)\<close> array \<^verbatim>\<open>atoms\<close>. The field holds either the empty
  Python list the constructor puts there (\<open>PyList\<close>) or a numpy array (\<open>NdArray\<close>);
  \<open>NdArray []\<close> is the array \<^verbatim>\<open>numpy.array([])\<close> of shape \<open>(0,)\<close> that \<^verbatim>\<open>read\<close>
  builds from a file without ATOM records. A two-dimensional array is the list of its rows.
\<close>

type_synonym point = "real \<times> real \<times> real"

datatype atoms_val = PyList | NdArray "point list"

type_synonym matrix = "real list list"

definition px :: "point \<Rightarrow> real" where "px p = fst p"
definition py :: "point \<Rightarrow> real" where "py p = fst (snd p)"
definition pz :: "point \<Rightarrow> real" where "pz p = snd (snd p)"

definition msq :: "matrix \<Rightarrow> matrix" where
  "msq M = map (map (\<lambda>v. v\<^sup>2)) M"

definition madd :: "matrix \<Rightarrow> matrix \<Rightarrow> matrix" where
  "madd A B = map2 (map2 (+)) A B"

definition mscale :: "real \<Rightarrow> matrix \<Rightarrow> matrix" where
  "mscale c M = map (map (\<lambda>v. c * v)) M"

definition eye :: "nat \<Rightarrow> matrix" where
  "eye n = map (\<lambda>i. map (\<lambda>j. if i = j then 1 else 0) [0..<n]) [0..<n]"

definition cols :: "matrix \<Rightarrow> matrix" where
  "cols M = (case M of [] \<Rightarrow> [] | r # _ \<Rightarrow> map (\<lambda>j. map (\<lambda>row. row ! j) M) [0..<length r])"

text \<open>
  The reductions \<^verbatim>\<open>.min()\<close> and \<^verbatim>\<open>.max()\<close> along an axis; the program takes them
  over axes that hold at least one element.
\<close>

definition amin :: "real list \<Rightarrow> real" where
  "amin xs = Min (set xs)"

definition amax :: "real list \<Rightarrow> real" where
  "amax xs = Max (set xs)"

definition min_axis1 :: "matrix \<Rightarrow> real list" where
  "min_axis1 M = map amin M"

definition min_axis0 :: "matrix \<Rightarrow> real list" where
  "min_axis0 M = map amin (cols M)"

definition mean :: "real list \<Rightarrow> real" where
  "mean xs = sum_list xs / real (length xs)"

text \<open>\<^verbatim>\<open>delta_expand\<close>: the difference \<open>v1[i] - v2[j]\<close> for every pair, a 2D array.\<close>

definition delta_expand :: "real list \<Rightarrow> real list \<Rightarrow> matrix" where
  "delta_expand vec1 vec2 = map (\<lambda>a. map (\<lambda>b. a - b) vec2) vec1"

section \<open>The model object\<close>

type_synonym vec3 = "real \<times> real \<times> real"

type_synonym mat3 = "vec3 \<times> vec3 \<times> vec3"

text \<open>
  \<^verbatim>\<open>com\<close> starts as the empty Python list, and \<^verbatim>\<open>centroid\<close> stores either the
  mean row or, for the empty array, the scalar NaN.
\<close>

datatype com_val = ComList | ComNaN | ComVec vec3

text \<open>
  \<^verbatim>\<open>_fineness\<close> is \<open>cached_fineness\<close> (\<open>None\<close> as in Python); \<^verbatim>\<open>inertensor\<close>
  is \<open>None\<close> while it holds the empty list of the constructor. The header is the list of
  the lines of the file (the constructor's empty string iterates as no line at all). The
  semaphore only serialises threads and has no field here.
\<close>

record SASModel =
  atoms :: atoms_val
  radius :: real
  header :: "string list"
  com :: com_val
  cached_fineness :: "real option"
  inertensor :: "mat3 option"

text \<open>\<^verbatim>\<open>__init__\<close>\<close>

definition init :: SASModel where
  "init = \<lparr>atoms = PyList, radius = 1.0, header = [], com = ComList,
           cached_fineness = None, inertensor = None\<rparr>"

section \<open>Reading and saving the PDB file\<close>

text \<open>
  A file is its text, a string of characters that are code points below 256; how bytes
  are decoded into characters is not followed, and for an ASCII file the two are the same.
  \<^verbatim>\<open>open(filename)\<close> reads in text mode with universal newlines: a carriage return
  followed by a line feed, and a carriage return alone, arrive as one line feed.
  Iterating over the open file yields its lines, each with its line feed, the last one
  possibly without. Text written to a file opened with \<^verbatim>\<open>"w"\<close> is not translated.
\<close>

fun universal_newlines :: "string \<Rightarrow> string" where
  "universal_newlines [] = []"
| "universal_newlines [c] = (if c = CHR 0x0D then [CHR 0x0A] else [c])"
| "universal_newlines (c # d # cs) =
     (if c = CHR 0x0D
      then (if d = CHR 0x0A then CHR 0x0A # universal_newlines cs
            else CHR 0x0A # universal_newlines (d # cs))
      else c # universal_newlines (d # cs))"

fun lines_from :: "string \<Rightarrow> string \<Rightarrow> string list" where
  "lines_from [] cur = (if cur = [] then [] else [cur])"
| "lines_from (c # cs) cur =
     (if c = CHR 0x0A then (cur @ [c]) # lines_from cs [] else lines_from cs (cur @ [c]))"

definition file_lines :: "string \<Rightarrow> string list" where
  "file_lines content = lines_from (universal_newlines content) []"

definition startswith :: "string \<Rightarrow> string \<Rightarrow> bool" where
  "startswith line p = (take (length p) line = p)"

text \<open>
  \<^verbatim>\<open>line.split()\<close>: the maximal runs of characters that are not whitespace. The
  whitespace of a Python 3 string, among the code points below 256, is the tab, the line
  feed, the vertical tab, the form feed, the carriage return, the four separators
  \<open>0x1C\<close> to \<open>0x1F\<close>, the space, the next line \<open>0x85\<close> and the no-break space \<open>0xA0\<close>.
\<close>

definition is_space :: "char \<Rightarrow> bool" where
  "is_space c = (c \<in> set [CHR 0x09, CHR 0x0A, CHR 0x0B, CHR 0x0C, CHR 0x0D,
                             CHR 0x1C, CHR 0x1D, CHR 0x1E, CHR 0x1F, CHR '' '',
                             CHR 0x85, CHR 0xA0])"

fun split_from :: "string \<Rightarrow> string \<Rightarrow> string list" where
  "split_from [] cur = (if cur = [] then [] else [cur])"
| "split_from (c # cs) cur =
     (if is_space c then (if cur = [] then split_from cs [] else cur # split_from cs [])
      else split_from cs (cur @ [c]))"

definition split :: "string \<Rightarrow> string list" where
  "split line = split_from line []"

text \<open>
  Python's \<^verbatim>\<open>float\<close> on a string and the format \<^verbatim>\<open>"%8.3f%8.3f%8.3f" % tuple(row)\<close>
  belong to the language, not to the program: \<^verbatim>\<open>read\<close> and \<^verbatim>\<open>save\<close> take them as
  the parameters \<open>pyfloat\<close> (\<open>None\<close> for ValueError) and \<open>fmt\<close>.
\<close>

definition float_arg :: "(string \<Rightarrow> real option) \<Rightarrow> string list \<Rightarrow> nat \<Rightarrow> exn + real" where
  "float_arg pyfloat args i =
     (if length args \<le> i then Inl IndexError
      else case pyfloat (args ! i) of None \<Rightarrow> Inl ValueError | Some v \<Rightarrow> Inr v)"

definition parse_atom :: "(string \<Rightarrow> real option) \<Rightarrow> string \<Rightarrow> exn + point" where
  "parse_atom pyfloat line =
     (let args = split line in
      case float_arg pyfloat args 6 of
        Inl e \<Rightarrow> Inl e
      | Inr x \<Rightarrow>
          (case float_arg pyfloat args 7 of
             Inl e \<Rightarrow> Inl e
           | Inr y \<Rightarrow>
               (case float_arg pyfloat args 8 of
                  Inl e \<Rightarrow> Inl e
                | Inr z \<Rightarrow> Inr (x, y, z))))"

text \<open>The loop of \<^verbatim>\<open>read\<close> with its two accumulators, \<^verbatim>\<open>header\<close> and \<^verbatim>\<open>atoms\<close>.\<close>

fun read_loop :: "(string \<Rightarrow> real option) \<Rightarrow> string list \<Rightarrow> string list \<Rightarrow> point list
     \<Rightarrow> exn + (string list \<times> point list)" where
  "read_loop pyfloat [] hdr ats = Inr (hdr, ats)"
| "read_loop pyfloat (line # rest) hdr ats =
     (if startswith line ''ATOM'' then
        (case parse_atom pyfloat line of
           Inl e \<Rightarrow> Inl e
         | Inr p \<Rightarrow> read_loop pyfloat rest (hdr @ [line]) (ats @ [p]))
      else read_loop pyfloat rest (hdr @ [line]) ats)"

definition read :: "(string \<Rightarrow> real option) \<Rightarrow> SASModel \<Rightarrow> string \<Rightarrow> exn + SASModel" where
  "read pyfloat self content =
     (case read_loop pyfloat (file_lines content) [] [] of
        Inl e \<Rightarrow> Inl e
      | Inr (hdr, ats) \<Rightarrow> Inr (self\<lparr>header := hdr, atoms := NdArray ats\<rparr>))"

text \<open>
  The loop of \<^verbatim>\<open>save\<close>, returning the strings it writes in order.
  \<^verbatim>\<open>self.atoms.shape\<close> is read at an ATOM line only, and a Python list has none.
\<close>

fun save_loop :: "(point \<Rightarrow> string) \<Rightarrow> atoms_val \<Rightarrow> string list \<Rightarrow> nat \<Rightarrow> exn + string list" where
  "save_loop fmt a [] nr = Inr []"
| "save_loop fmt a (line # rest) nr =
     (if startswith line ''ATOM'' then
        (case a of
           PyList \<Rightarrow> Inl AttributeError
         | NdArray ps \<Rightarrow>
             (let line' = (if nr < length ps
                           then take 30 line @ fmt (ps ! nr) @ drop 54 line
                           else [])
              in case save_loop fmt a rest (nr + 1) of
                   Inl e \<Rightarrow> Inl e
                 | Inr out \<Rightarrow> Inr (line' # out)))
      else
        (case save_loop fmt a rest nr of
           Inl e \<Rightarrow> Inl e
         | Inr out \<Rightarrow> Inr (line # out)))"

text \<open>\<^verbatim>\<open>save\<close>: the content of the file once it is closed.\<close>

definition save :: "(point \<Rightarrow> string) \<Rightarrow> SASModel \<Rightarrow> exn + string" where
  "save fmt self =
     (case save_loop fmt (atoms self) (header self) 0 of
        Inl e \<Rightarrow> Inl e
      | Inr out \<Rightarrow> Inr (concat out))"

section \<open>Centroid, inertia tensor and canonical position\<close>

text \<open>
  \<^verbatim>\<open>centroid\<close>: \<^verbatim>\<open>mol.mean(axis=0)\<close>. A Python list has no \<^verbatim>\<open>mean\<close>; the mean of the
  empty array is NaN, with a warning and no exception.
\<close>

definition centroid :: "SASModel \<Rightarrow> exn + SASModel" where
  "centroid self =
     (case atoms self of
        PyList \<Rightarrow> Inl AttributeError
      | NdArray mol \<Rightarrow>
          Inr (self\<lparr>com := (if mol = [] then ComNaN
                             else ComVec (mean (map px mol), mean (map py mol), mean (map pz mol)))\<rparr>))"

definition coord :: "nat \<Rightarrow> point \<Rightarrow> real" where
  "coord i p = (if i = 0 then px p else if i = 1 then py p else pz p)"

definition delta_kron :: "nat \<Rightarrow> nat \<Rightarrow> real" where
  "delta_kron i j = (if i = j then 1 else 0)"

definition tensor_entry :: "point list \<Rightarrow> nat \<Rightarrow> nat \<Rightarrow> real" where
  "tensor_entry mol i j =
     sum_list (map (\<lambda>r. delta_kron i j * ((px r)\<^sup>2 + (py r)\<^sup>2 + (pz r)\<^sup>2) - coord i r * coord j r) mol)
       / real (length mol)"

text \<open>
  \<^verbatim>\<open>inertiatensor\<close>. The subtraction \<^verbatim>\<open>self.atoms - self.com\<close> fails between two lists
  (TypeError) and between shapes that do not broadcast (ValueError); on the empty array
  with a scalar centroid the sum along axis 1 fails (ValueError).
\<close>

definition inertiatensor :: "SASModel \<Rightarrow> exn + SASModel" where
  "inertiatensor self =
     (case (atoms self, com self) of
        (PyList, ComList) \<Rightarrow> Inl TypeError
      | (PyList, _) \<Rightarrow> Inl ValueError
      | (NdArray ps, ComList) \<Rightarrow> Inl ValueError
      | (NdArray ps, ComNaN) \<Rightarrow> (if ps = [] then Inl ValueError else Inl NaNArray)
      | (NdArray ps, ComVec c) \<Rightarrow>
          (if ps = [] then Inl ValueError
           else
             let mol = map (\<lambda>p. (px p - px c, py p - py c, pz p - pz c)) ps;
                 t = tensor_entry mol
             in Inr (self\<lparr>inertensor :=
                      Some ((t 0 0, t 0 1, t 0 2), (t 0 1, t 1 1, t 1 2), (t 0 2, t 1 2, t 2 2))\<rparr>)))"

text \<open>\<^verbatim>\<open>canonical_translate\<close>: the identity with \<^verbatim>\<open>-self.com\<close> in the last column.\<close>

definition canonical_translate :: "SASModel \<Rightarrow> exn + matrix" where
  "canonical_translate self =
     (case com self of
        ComList \<Rightarrow> Inl TypeError
      | ComNaN \<Rightarrow> Inl NaNArray
      | ComVec c \<Rightarrow>
          Inr [[1, 0, 0, - px c],
               [0, 1, 0, - py c],
               [0, 0, 1, - pz c],
               [0, 0, 0, 1]])"

text \<open>
  \<^verbatim>\<open>w.argsort()\<close> on three values: the indices in ascending order of their values,
  equal values in their original order.
\<close>

definition argsort :: "real list \<Rightarrow> nat list" where
  "argsort w = sort_key (\<lambda>i. w ! i) [0..<length w]"

definition vec_list :: "vec3 \<Rightarrow> real list" where
  "vec_list v = [px v, py v, pz v]"

definition column :: "mat3 \<Rightarrow> nat \<Rightarrow> vec3" where
  "column v k = (case v of (r0, r1, r2) \<Rightarrow> (coord k r0, coord k r1, coord k r2))"

text \<open>
  \<^verbatim>\<open>canonical_rotate\<close>. \<^verbatim>\<open>numpy.linalg.eigh\<close> is the parameter \<open>eigh\<close>: for a 3 by 3
  matrix it returns the eigenvalues \<open>w\<close> and the matrix \<open>v\<close> whose columns are the
  eigenvectors, or raises LinAlgError (\<open>None\<close>); on the empty list of the constructor it
  raises LinAlgError. The rows of the result are the columns of \<open>v\<close> in the order
  \<^verbatim>\<open>w.argsort()\<close>, extended by a zero, and the last row is \<open>(0, 0, 0, 1)\<close>.
\<close>

definition canonical_rotate :: "(mat3 \<Rightarrow> (vec3 \<times> mat3) option) \<Rightarrow> SASModel \<Rightarrow> exn + matrix" where
  "canonical_rotate eigh self =
     (case inertensor self of
        None \<Rightarrow> Inl LinAlgError
      | Some t \<Rightarrow>
          (case eigh t of
             None \<Rightarrow> Inl LinAlgError
           | Some (w, v) \<Rightarrow>
               Inr (map (\<lambda>k. vec_list (column v k) @ [0]) (argsort (vec_list w)) @ [[0, 0, 0, 1]])))"

definition ncols :: "matrix \<Rightarrow> nat" where
  "ncols B = (case B of [] \<Rightarrow> 0 | r # _ \<Rightarrow> length r)"

text \<open>\<^verbatim>\<open>numpy.dot\<close> of two 2D arrays whose shapes agree, as they do at its two calls.\<close>

definition dot :: "matrix \<Rightarrow> matrix \<Rightarrow> matrix" where
  "dot A B = map (\<lambda>row. map (\<lambda>j. (\<Sum>k\<leftarrow>[0..<length B]. row ! k * B ! k ! j)) [0..<ncols B]) A"

definition rows_to_points :: "matrix \<Rightarrow> point list" where
  "rows_to_points M = map (\<lambda>j. (M ! 0 ! j, M ! 1 ! j, M ! 2 ! j)) [0..<ncols M]"

text \<open>
  \<^verbatim>\<open>canonical_position\<close>. It reads \<^verbatim>\<open>com\<close> and \<^verbatim>\<open>inertensor\<close> as they are stored.
  A Python list has no \<^verbatim>\<open>T\<close>; the empty array of shape \<open>(0,)\<close> cannot be appended to
  the 2D row of ones (ValueError). With a NaN centroid the coordinates become NaN, unless
  \<^verbatim>\<open>canonical_rotate\<close> raises.
\<close>

definition canonical_position :: "(mat3 \<Rightarrow> (vec3 \<times> mat3) option) \<Rightarrow> SASModel \<Rightarrow> exn + SASModel" where
  "canonical_position eigh self =
     (case atoms self of
        PyList \<Rightarrow> Inl AttributeError
      | NdArray ps \<Rightarrow>
          (if ps = [] then Inl ValueError
           else
             (let mol = [map px ps, map py ps, map pz ps, replicate (length ps) 1] in
              (case canonical_translate self of
                 Inl NaNArray \<Rightarrow>
                   (case canonical_rotate eigh self of Inl e \<Rightarrow> Inl e | Inr rot \<Rightarrow> Inl NaNArray)
               | Inl e \<Rightarrow> Inl e
               | Inr trans_m \<Rightarrow>
                   (let mol1 = dot trans_m mol in
                    (case canonical_rotate eigh self of
                       Inl e \<Rightarrow> Inl e
                     | Inr rot \<Rightarrow>
                         (let mol2 = dot rot mol1;
                              molfinal = take 3 mol2 @ drop 4 mol2
                          in Inr (self\<lparr>atoms := NdArray (rows_to_points molfinal)\<rparr>))))))))"

text \<open>The determinant of a square matrix, expanded along its first row.\<close>

definition minor_cols :: "nat \<Rightarrow> matrix \<Rightarrow> matrix" where
  "minor_cols j M = map (\<lambda>row. take j row @ drop (Suc j) row) M"

function det :: "matrix \<Rightarrow> real" where
  "det [] = 1"
| "det (r # rs) = (\<Sum>j\<leftarrow>[0..<length r]. (- 1) ^ j * r ! j * det (minor_cols j rs))"
  by pat_completeness auto
termination
  by (relation "measure length") (auto simp: minor_cols_def)

section \<open>Fineness and the discrepancy\<close>

definition sqdist_matrix :: "point list \<Rightarrow> point list \<Rightarrow> matrix" where
  "sqdist_matrix mol1 mol2 =
     madd (madd (msq (delta_expand (map px mol1) (map px mol2)))
                (msq (delta_expand (map py mol1) (map py mol2))))
          (msq (delta_expand (map pz mol1) (map pz mol2)))"

text \<open>
  \<^verbatim>\<open>_calc_fineness\<close>, pure-Python branch. \<^verbatim>\<open>self.atoms[:,0]\<close> raises TypeError on a
  Python list and IndexError on the empty array.
\<close>

definition calc_fineness :: "SASModel \<Rightarrow> exn + real" where
  "calc_fineness self =
     (case atoms self of
        PyList \<Rightarrow> Inl TypeError
      | NdArray ps \<Rightarrow>
          (if ps = [] then Inl IndexError
           else
             (let D = sqdist_matrix ps ps;
                  d12 = mean (min_axis0 (madd (mscale (amax (concat D)) (eye (length (map px ps)))) D));
                  fineness = sqrt d12
              in Inr fineness)))"

text \<open>The property \<^verbatim>\<open>fineness\<close>: computed on first access, then read from the cache.\<close>

definition fineness :: "SASModel \<Rightarrow> exn + (real \<times> SASModel)" where
  "fineness self =
     (case cached_fineness self of
        Some f \<Rightarrow> Inr (f, self)
      | None \<Rightarrow>
          (case calc_fineness self of
             Inl e \<Rightarrow> Inl e
           | Inr f \<Rightarrow> Inr (f, self\<lparr>cached_fineness := Some f\<rparr>)))"

text \<open>
  \<^verbatim>\<open>dist\<close>, pure-Python branch, for two distinct objects. The result is the value
  with both objects, whose caches the property reads may have filled
  (\<^verbatim>\<open>other.fineness\<close> is read first).
\<close>

definition array_rows :: "atoms_val \<Rightarrow> exn + point list" where
  "array_rows a =
     (case a of
        PyList \<Rightarrow> Inl TypeError
      | NdArray ps \<Rightarrow> if ps = [] then Inl IndexError else Inr ps)"

definition dist_sas :: "SASModel \<Rightarrow> SASModel \<Rightarrow> exn + (np_float \<times> SASModel \<times> SASModel)" where
  "dist_sas self other =
     (case array_rows (atoms self) of
        Inl e \<Rightarrow> Inl e
      | Inr mol1 \<Rightarrow>
          (case array_rows (atoms other) of
             Inl e \<Rightarrow> Inl e
           | Inr mol2 \<Rightarrow>
               (let d2 = sqdist_matrix mol1 mol2 in
                (case fineness other of
                   Inl e \<Rightarrow> Inl e
                 | Inr (fo, other') \<Rightarrow>
                     (case fineness self of
                        Inl e \<Rightarrow> Inl e
                      | Inr (fs, self') \<Rightarrow>
                          Inr (np_pow_half
                                 (np_mul (Fin 0.5)
                                    (np_add
                                       (np_mul (np_recip (real (length mol1) * fo * fo))
                                               (Fin (sum_list (min_axis1 d2))))
                                       (np_mul (np_recip (real (length mol2) * fs * fs))
                                               (Fin (sum_list (min_axis0 d2)))))),
                               self', other'))))))"

section \<open>The formulas of the specification\<close>

text \<open>
  The definitions of this section follow the words of the specification, not the code:
  the Euclidean distance, the discrepancy as its formula is written, and the fineness as
  ``the mean, over each atom, of the Euclidean distance to its nearest other atom''.
\<close>

definition euclid :: "point \<Rightarrow> point \<Rightarrow> real" where
  "euclid a b = sqrt ((px a - px b)\<^sup>2 + (py a - py b)\<^sup>2 + (pz a - pz b)\<^sup>2)"

definition nsd_spec :: "point list \<Rightarrow> point list \<Rightarrow> real \<Rightarrow> real \<Rightarrow> real" where
  "nsd_spec A B fA fB =
     sqrt (0.5 * ((1 / (real (length A) * fB\<^sup>2)) * (\<Sum>a\<leftarrow>A. Min ((\<lambda>b. (euclid a b)\<^sup>2) ` set B))
                + (1 / (real (length B) * fA\<^sup>2)) * (\<Sum>b\<leftarrow>B. Min ((\<lambda>a. (euclid a b)\<^sup>2) ` set A))))"

definition nearest_other :: "point list \<Rightarrow> nat \<Rightarrow> real" where
  "nearest_other X i = Min (set (map (\<lambda>j. euclid (X ! i) (X ! j)) (filter (\<lambda>j. j \<noteq> i) [0..<length X])))"

definition fineness_spec :: "point list \<Rightarrow> real" where
  "fineness_spec X = (\<Sum>i\<leftarrow>[0..<length X]. nearest_other X i) / real (length X)"

text \<open>The root mean square of the same nearest-neighbour distances.\<close>

definition rms_nearest :: "point list \<Rightarrow> real" where
  "rms_nearest X = sqrt ((\<Sum>i\<leftarrow>[0..<length X]. (nearest_other X i)\<^sup>2) / real (length X))"

text \<open>The squared distance of two atoms, the entry of \<^verbatim>\<open>d2\<close> and of \<^verbatim>\<open>D\<close>.\<close>

definition sqd :: "point \<Rightarrow> point \<Rightarrow> real" where
  "sqd a b = (px a - px b)\<^sup>2 + (py a - py b)\<^sup>2 + (pz a - pz b)\<^sup>2"

text \<open>A model just constructed whose \<^verbatim>\<open>atoms\<close> were set to an array.\<close>

definition model_of :: "point list \<Rightarrow> SASModel" where
  "model_of ps = init\<lparr>atoms := NdArray ps\<rparr>"

section \<open>Auxiliary definitions\<close>

text \<open>The tensor that \<^verbatim>\<open>inertiatensor\<close> stores for the atoms \<open>ps\<close> and the centroid \<open>c\<close>.\<close>

definition tensor_of :: "point list \<Rightarrow> vec3 \<Rightarrow> mat3" where
  "tensor_of ps c =
     (let t = tensor_entry (map (\<lambda>p. (px p - px c, py p - py c, pz p - pz c)) ps)
      in ((t 0 0, t 0 1, t 0 2), (t 0 1, t 1 1, t 1 2), (t 0 2, t 1 2, t 2 2)))"

text \<open>A coordinate of an atom after the translation by \<open>- c\<close> and the row \<open>e\<close> of the rotation.\<close>

definition rotated :: "vec3 \<Rightarrow> vec3 \<Rightarrow> point \<Rightarrow> real" where
  "rotated e c p = px e * (px p - px c) + py e * (py p - py c) + pz e * (pz p - pz c)"

text \<open>What an eigen-decomposition of a symmetric 3 by 3 matrix is: the columns of \<open>v\<close> are
  orthonormal eigenvectors for the eigenvalues \<open>w\<close>, in ascending order.\<close>

definition mat_vec :: "mat3 \<Rightarrow> vec3 \<Rightarrow> vec3" where
  "mat_vec t x = (case t of (r0, r1, r2) \<Rightarrow>
     (px r0 * px x + py r0 * py x + pz r0 * pz x,
      px r1 * px x + py r1 * py x + pz r1 * pz x,
      px r2 * px x + py r2 * py x + pz r2 * pz x))"

definition inner3 :: "vec3 \<Rightarrow> vec3 \<Rightarrow> real" where
  "inner3 x y = px x * px y + py x * py y + pz x * pz y"

definition eigen_decomposition :: "mat3 \<Rightarrow> vec3 \<Rightarrow> mat3 \<Rightarrow> bool" where
  "eigen_decomposition t w v =
     (list_all (\<lambda>k. mat_vec t (column v k)
                    = (coord k w * px (column v k), coord k w * py (column v k), coord k w * pz (column v k)))
               [0, 1, 2]
      \<and> list_all (\<lambda>k. list_all (\<lambda>l. inner3 (column v k) (column v l) = (if k = l then 1 else 0)) [0, 1, 2])
                  [0, 1, 2]
      \<and> px w \<le> py w \<and> py w \<le> pz w)"

text \<open>
  Four atoms on the axes x and y, their inertia tensor, and the value of
  \<^verbatim>\<open>numpy.linalg.eigh\<close> at this tensor: LAPACK leaves a diagonal matrix as it is and
  sorts the eigenvalues, exchanging the unit vectors with them. \<open>eigh_example\<close> stands for
  \<^verbatim>\<open>eigh\<close> at this one matrix only.
\<close>

definition axes_atoms :: "point list" where
  "axes_atoms = [(1, 0, 0), (- 1, 0, 0), (0, 2, 0), (0, - 2, 0)]"

definition axes_tensor :: mat3 where
  "axes_tensor = ((2, 0, 0), (0, 1 / 2, 0), (0, 0, 5 / 2))"

definition eigh_example :: "mat3 \<Rightarrow> (vec3 \<times> mat3) option" where
  "eigh_example t =
     (if t = axes_tensor then Some ((1 / 2, 2, 5 / 2), ((0, 1, 0), (1, 0, 0), (0, 0, 1))) else None)"

text \<open>The atoms of the scenario of the specification.\<close>

definition tetra_atoms :: "point list" where
  "tetra_atoms = [(0, 0, 0), (1, 0, 0), (0, 1, 0), (0, 0, 1)]"

section \<open>Stand-ins for the float conversions of Python\<close>




definition round_half_even :: "real \<Rightarrow> nat" where
  "round_half_even y =
     (let f = nat \<lfloor>y\<rfloor>; d = y - real f
      in if d < 1 / 2 then f else if 1 / 2 < d then f + 1 else if even f then f else f + 1)"

fun show_nat :: "nat \<Rightarrow> string" where
  "show_nat n = (if n < 10 then [''0123456789'' ! n] else show_nat (n div 10) @ [''0123456789'' ! (n mod 10)])"

declare show_nat.simps [simp del]

definition fmt_8_3f :: "real \<Rightarrow> string" where
  "fmt_8_3f x =
     (let r = round_half_even (\<bar>x\<bar> * 1000);
          fp = show_nat (r mod 1000);
          s = (if x < 0 then ''-'' else '''') @ show_nat (r div 1000) @ ''.''
              @ replicate (3 - length fp) CHR ''0'' @ fp
      in replicate (8 - length s) CHR '' '' @ s)"

definition fmt_atom :: "point \<Rightarrow> string" where
  "fmt_atom p = fmt_8_3f (px p) @ fmt_8_3f (py p) @ fmt_8_3f (pz p)"


text \<open>
  What the claims on \<^verbatim>\<open>save\<close> say it writes: every line of the header in order, an
  ATOM record with its columns 31 to 54 replaced by the formatted atom of the same rank
  among the ATOM records, every other line unchanged.
\<close>

definition atom_rank :: "string list \<Rightarrow> nat \<Rightarrow> nat" where
  "atom_rank hdr i = length (filter (\<lambda>l. startswith l ''ATOM'') (take i hdr))"

definition substituted :: "(point \<Rightarrow> string) \<Rightarrow> point list \<Rightarrow> string list \<Rightarrow> string list" where
  "substituted fmt ps hdr =
     map (\<lambda>i. if startswith (hdr ! i) ''ATOM''
               then take 30 (hdr ! i) @ fmt (ps ! atom_rank hdr i) @ drop 54 (hdr ! i)
               else hdr ! i) [0..<length hdr]"

text \<open>
  A file of three lines in the layout \<^verbatim>\<open>save\<close> writes, a file of one ATOM record whose
  first coordinate has two decimals only, and a model that holds one atom more than its
  header holds ATOM records.
\<close>

definition good_file :: string where
  "good_file = ''REMARK   test model\<newline>'' @
     ''ATOM      1  CA  ASP A   1      12.345  -2.000   0.500  1.00 20.00\<newline>'' @
     ''END\<newline>''"


definition two_atom_model :: SASModel where
  "two_atom_model = init\<lparr>header := file_lines good_file, atoms := NdArray [(12.345, - 2, 1 / 2), (7, 8, 9)]\<rparr>"

section \<open>The distance matrix and its reductions\<close>

lemma map2_same: "map2 h (map f xs) (map g xs) = map (\<lambda>x. h (f x) (g x)) xs"
  by (induction xs) simp_all

lemma madd_tab: "madd (map (\<lambda>a. map (f a) bs) as) (map (\<lambda>a. map (g a) bs) as)
   = map (\<lambda>a. map (\<lambda>b. f a b + g a b) bs) as"
  unfolding madd_def by (simp add: map2_same)

lemma msq_delta: "msq (delta_expand (map f as) (map g bs)) = map (\<lambda>a. map (\<lambda>b. (f a - g b)\<^sup>2) bs) as"
  by (simp add: msq_def delta_expand_def comp_def)

lemma sqdist_matrix_tab: "sqdist_matrix mol1 mol2 = map (\<lambda>a. map (\<lambda>b. sqd a b) mol2) mol1"
  by (simp add: sqdist_matrix_def msq_delta madd_tab sqd_def)

lemma map_nth_fun: "map (\<lambda>j. g (xs ! j)) [0..<length xs] = map g xs"
  by (rule nth_equalityI) simp_all

lemma cols_tab: "as \<noteq> [] \<Longrightarrow> cols (map (\<lambda>a. map (f a) bs) as) = map (\<lambda>b. map (\<lambda>a. f a b) as) bs"
proof -
  assume "as \<noteq> []"
  then obtain a as' where as: "as = a # as'" by (cases as) auto
  have "cols (map (\<lambda>a. map (f a) bs) as) = map (\<lambda>j. map (\<lambda>row. row ! j) (map (\<lambda>a. map (f a) bs) as)) [0..<length bs]"
    by (simp add: cols_def as)
  also have "\<dots> = map (\<lambda>j. map (\<lambda>a. f a (bs ! j)) as) [0..<length bs]"
    by (simp add: comp_def)
  also have "\<dots> = map (\<lambda>b. map (\<lambda>a. f a b) as) bs"
    by (rule map_nth_fun)
  finally show ?thesis .
qed

lemma min_axis1_tab: "min_axis1 (map (\<lambda>a. map (f a) bs) as) = map (\<lambda>a. Min (f a ` set bs)) as"
  by (simp add: min_axis1_def amin_def comp_def)

lemma min_axis0_tab: "as \<noteq> [] \<Longrightarrow> min_axis0 (map (\<lambda>a. map (f a) bs) as) = map (\<lambda>b. Min ((\<lambda>a. f a b) ` set as)) bs"
  by (simp add: min_axis0_def cols_tab amin_def comp_def)

lemma euclid_sq: "(euclid a b)\<^sup>2 = sqd a b"
  by (simp add: euclid_def sqd_def)

lemma sqd_nonneg: "0 \<le> sqd a b"
  by (simp add: sqd_def)

lemma sqd_self: "sqd a a = 0"
  by (simp add: sqd_def)

lemma sqd_sym: "sqd a b = sqd b a"
  by (simp add: sqd_def power2_commute)

lemma dist_value:
  assumes "atoms A = NdArray as" "atoms B = NdArray bs" "as \<noteq> []" "bs \<noteq> []"
    and "fineness A = Inr (fA, A')" "fineness B = Inr (fB, B')"
  shows "dist_sas A B = Inr (np_pow_half (np_mul (Fin 0.5) (np_add
            (np_mul (np_recip (real (length as) * fB * fB))
                    (Fin (\<Sum>a\<leftarrow>as. Min ((\<lambda>b. sqd a b) ` set bs))))
            (np_mul (np_recip (real (length bs) * fA * fA))
                    (Fin (\<Sum>b\<leftarrow>bs. Min ((\<lambda>a. sqd a b) ` set as)))))), A', B')"
  using assms
  by (simp add: dist_sas_def array_rows_def Let_def sqdist_matrix_tab min_axis1_tab min_axis0_tab)

lemma min_sum_nonneg: "bs \<noteq> [] \<Longrightarrow> 0 \<le> (\<Sum>a\<leftarrow>as. Min ((\<lambda>b. sqd a b) ` set bs))"
  by (rule sum_list_nonneg) (auto simp: sqd_nonneg)

lemma min_sum_nonneg': "as \<noteq> [] \<Longrightarrow> 0 \<le> (\<Sum>b\<leftarrow>bs. Min ((\<lambda>a. sqd a b) ` set as))"
  by (rule sum_list_nonneg) (auto simp: sqd_nonneg)

lemma nsd_arg_nonneg:
  assumes "as \<noteq> []" "bs \<noteq> []" "fA \<noteq> 0" "fB \<noteq> 0"
  shows "0 \<le> 0.5 * (1 / (real (length as) * fB * fB) * (\<Sum>a\<leftarrow>as. Min ((\<lambda>b. sqd a b) ` set bs))
             + 1 / (real (length bs) * fA * fA) * (\<Sum>b\<leftarrow>bs. Min ((\<lambda>a. sqd a b) ` set as)))"
proof -
  let ?S1 = "\<Sum>a\<leftarrow>as. Min ((\<lambda>b. sqd a b) ` set bs)"
  let ?S2 = "\<Sum>b\<leftarrow>bs. Min ((\<lambda>a. sqd a b) ` set as)"
  have S1: "0 \<le> ?S1" using assms(2) by (rule min_sum_nonneg)
  have S2: "0 \<le> ?S2" using assms(1) by (rule min_sum_nonneg')
  have "0 < fB * fB" "0 < fA * fA" using assms(3,4) by (auto simp: zero_less_mult_iff)
  then have pA: "0 < real (length as) * fB * fB"
    and pB: "0 < real (length bs) * fA * fA" using assms(1,2)
    by (simp_all add: mult.assoc)
  show ?thesis using S1 S2 pA pB by simp
qed

lemma dist_finite:
  assumes "atoms A = NdArray as" "atoms B = NdArray bs" "as \<noteq> []" "bs \<noteq> []"
    and "fineness A = Inr (fA, A')" "fineness B = Inr (fB, B')"
    and "fA \<noteq> 0" "fB \<noteq> 0"
  shows "dist_sas A B = Inr (Fin (sqrt (0.5 * (1 / (real (length as) * fB * fB) * (\<Sum>a\<leftarrow>as. Min ((\<lambda>b. sqd a b) ` set bs))
             + 1 / (real (length bs) * fA * fA) * (\<Sum>b\<leftarrow>bs. Min ((\<lambda>a. sqd a b) ` set as))))), A', B')"
proof -
  have nA: "real (length as) * fB * fB \<noteq> 0" using assms by simp
  have nB: "real (length bs) * fA * fA \<noteq> 0" using assms by simp
  note v = nsd_arg_nonneg[OF assms(3,4,7,8)]
  show ?thesis
    using dist_value[OF assms(1-6)] nA nB v by (simp add: np_recip_def)
qed

section \<open>The discrepancy\<close>

text \<open>
  Claim C1. For two models with at least two atoms each and nonzero fineness values
  \<open>fA\<close> and \<open>fB\<close> (the values the property \<^verbatim>\<open>fineness\<close> yields), \<^verbatim>\<open>dist\<close> returns
  the square root of half the sum of the two normalised sums of squared nearest
  distances, as the specification writes it (\<open>nsd_spec\<close>), and this value is not
  negative.
\<close>

theorem dist_formula:
  assumes "atoms A = NdArray as" "atoms B = NdArray bs"
    and "2 \<le> length as" "2 \<le> length bs"
    and "fineness A = Inr (fA, A')" "fineness B = Inr (fB, B')"
    and "fA \<noteq> 0" "fB \<noteq> 0"
  shows "dist_sas A B = Inr (Fin (nsd_spec as bs fA fB), A', B') \<and> 0 \<le> nsd_spec as bs fA fB"
proof -
  have ne: "as \<noteq> []" "bs \<noteq> []" using assms(3,4) by auto
  let ?v = "0.5 * (1 / (real (length as) * fB * fB) * (\<Sum>a\<leftarrow>as. Min ((\<lambda>b. sqd a b) ` set bs))
             + 1 / (real (length bs) * fA * fA) * (\<Sum>b\<leftarrow>bs. Min ((\<lambda>a. sqd a b) ` set as)))"
  have d: "dist_sas A B = Inr (Fin (sqrt ?v), A', B')"
    by (rule dist_finite[OF assms(1,2) ne assms(5-8)])
  have eq: "sqrt ?v = nsd_spec as bs fA fB"
    unfolding nsd_spec_def euclid_sq by (simp add: power2_eq_square mult.assoc)
  have "0 \<le> sqrt ?v" using nsd_arg_nonneg[OF ne assms(7,8)] by (rule real_sqrt_ge_zero)
  then show ?thesis using d unfolding eq by blast
qed


section \<open>The fineness\<close>

lemma Min_image_sq:
  fixes f :: "'a \<Rightarrow> real"
  assumes "finite S" "S \<noteq> {}" "\<And>x. x \<in> S \<Longrightarrow> 0 \<le> f x"
  shows "(Min (f ` S))\<^sup>2 = Min ((\<lambda>x. (f x)\<^sup>2) ` S)"
proof -
  have "Min (f ` S) \<in> f ` S" using assms(1,2) by (intro Min_in) auto
  then obtain x0 where x0: "x0 \<in> S" "Min (f ` S) = f x0" by auto
  have le: "f x0 \<le> f x" if "x \<in> S" for x
    using that assms(1) x0(2) by (metis Min_le finite_imageI imageI)
  have "Min ((\<lambda>x. (f x)\<^sup>2) ` S) = (f x0)\<^sup>2"
  proof (rule Min_eqI)
    show "finite ((\<lambda>x. (f x)\<^sup>2) ` S)" using assms(1) by simp
    show "(f x0)\<^sup>2 \<in> (\<lambda>x. (f x)\<^sup>2) ` S" using x0(1) by blast
    fix y assume "y \<in> (\<lambda>x. (f x)\<^sup>2) ` S"
    then obtain x where x: "x \<in> S" "y = (f x)\<^sup>2" by auto
    show "(f x0)\<^sup>2 \<le> y" unfolding x(2)
      using le[OF x(1)] assms(3)[OF x0(1)] by (rule power_mono)
  qed
  then show ?thesis using x0(2) by simp
qed

lemma sqdist_matrix_index:
  "sqdist_matrix ps ps = map (\<lambda>i. map (\<lambda>j. sqd (ps ! i) (ps ! j)) [0..<length ps]) [0..<length ps]"
  unfolding sqdist_matrix_tab by (intro nth_equalityI) simp_all

lemma masked_index:
  "madd (mscale c (eye (length ps))) (sqdist_matrix ps ps)
     = map (\<lambda>i. map (\<lambda>j. c * (if i = j then 1 else 0) + sqd (ps ! i) (ps ! j)) [0..<length ps]) [0..<length ps]"
  unfolding sqdist_matrix_index eye_def mscale_def by (simp add: comp_def madd_tab)

lemma sqd_le_amax:
  assumes "i < length ps" "j < length ps"
  shows "sqd (ps ! i) (ps ! j) \<le> amax (concat (sqdist_matrix ps ps))"
proof -
  have "ps ! i \<in> set ps" "ps ! j \<in> set ps" using assms by simp_all
  then have "sqd (ps ! i) (ps ! j) \<in> set (concat (sqdist_matrix ps ps))"
    unfolding sqdist_matrix_tab by auto
  then show ?thesis unfolding amax_def by (intro Max_ge) auto
qed

lemma masked_column_min:
  assumes "2 \<le> length ps" "j < length ps"
    and c: "\<And>i. i < length ps \<Longrightarrow> sqd (ps ! i) (ps ! j) \<le> c"
  shows "Min ((\<lambda>i. c * (if i = j then 1 else 0) + sqd (ps ! i) (ps ! j)) ` set [0..<length ps])
       = Min ((\<lambda>i. sqd (ps ! i) (ps ! j)) ` set (filter (\<lambda>i. i \<noteq> j) [0..<length ps]))"
proof -
  let ?n = "length ps"
  let ?g = "\<lambda>i. c * (if i = j then 1 else 0) + sqd (ps ! i) (ps ! j)"
  let ?R = "set (filter (\<lambda>i. i \<noteq> j) [0..<?n])"
  have R: "?R = {0..<?n} - {j}" by auto
  have ne: "?R \<noteq> {}"
  proof -
    have "(if j = 0 then 1 else 0) \<in> ?R" using assms(1) by auto
    then show ?thesis by auto
  qed
  have split: "set [0..<?n] = insert j ?R" using assms(2) by auto
  have img: "?g ` ?R = (\<lambda>i. sqd (ps ! i) (ps ! j)) ` ?R" by (rule image_cong) auto
  have gj: "?g j = c" by (simp add: sqd_self)
  have "Min (?g ` set [0..<?n]) = Min (insert c ((\<lambda>i. sqd (ps ! i) (ps ! j)) ` ?R))"
    unfolding split using img gj by simp
  also have "\<dots> = min c (Min ((\<lambda>i. sqd (ps ! i) (ps ! j)) ` ?R))"
    using ne by (intro Min_insert) auto
  also have "\<dots> = Min ((\<lambda>i. sqd (ps ! i) (ps ! j)) ` ?R)"
  proof -
    have "Min ((\<lambda>i. sqd (ps ! i) (ps ! j)) ` ?R) \<le> c"
      using ne c by (subst Min_le_iff) auto
    then show ?thesis by simp
  qed
  finally show ?thesis .
qed

lemma nearest_other_sq:
  assumes "2 \<le> length ps" "j < length ps"
  shows "(nearest_other ps j)\<^sup>2 = Min ((\<lambda>i. sqd (ps ! i) (ps ! j)) ` set (filter (\<lambda>i. i \<noteq> j) [0..<length ps]))"
proof -
  let ?R = "set (filter (\<lambda>i. i \<noteq> j) [0..<length ps])"
  have ne: "?R \<noteq> {}"
  proof -
    have "(if j = 0 then 1 else 0) \<in> ?R" using assms(1) by auto
    then show ?thesis by auto
  qed
  have "(nearest_other ps j)\<^sup>2 = (Min ((\<lambda>i. euclid (ps ! j) (ps ! i)) ` ?R))\<^sup>2"
    by (simp add: nearest_other_def)
  also have "\<dots> = Min ((\<lambda>i. (euclid (ps ! j) (ps ! i))\<^sup>2) ` ?R)"
    using ne by (intro Min_image_sq) (auto simp: euclid_def)
  also have "\<dots> = Min ((\<lambda>i. sqd (ps ! i) (ps ! j)) ` ?R)"
    unfolding euclid_sq by (simp add: sqd_sym[of "ps ! j"])
  finally show ?thesis .
qed

lemma calc_fineness_value:
  assumes "atoms A = NdArray ps" "2 \<le> length ps"
  shows "calc_fineness A = Inr (rms_nearest ps)"
proof -
  let ?n = "length ps"
  let ?c = "amax (concat (sqdist_matrix ps ps))"
  have ne: "ps \<noteq> []" using assms(2) by auto
  have n0: "[0..<?n] \<noteq> []" using assms(2) by auto
  have "min_axis0 (madd (mscale ?c (eye ?n)) (sqdist_matrix ps ps))
      = map (\<lambda>j. Min ((\<lambda>i. ?c * (if i = j then 1 else 0) + sqd (ps ! i) (ps ! j)) ` set [0..<?n])) [0..<?n]"
    unfolding masked_index by (rule min_axis0_tab[OF n0])
  also have "\<dots> = map (\<lambda>j. (nearest_other ps j)\<^sup>2) [0..<?n]"
  proof (rule map_cong[OF refl])
    fix j assume "j \<in> set [0..<?n]"
    then have j: "j < ?n" by simp
    show "Min ((\<lambda>i. ?c * (if i = j then 1 else 0) + sqd (ps ! i) (ps ! j)) ` set [0..<?n]) = (nearest_other ps j)\<^sup>2"
      unfolding nearest_other_sq[OF assms(2) j]
      by (rule masked_column_min[OF assms(2) j]) (rule sqd_le_amax[OF _ j])
  qed
  finally have m: "min_axis0 (madd (mscale ?c (eye ?n)) (sqdist_matrix ps ps)) = map (\<lambda>j. (nearest_other ps j)\<^sup>2) [0..<?n]" .
  show ?thesis
    using assms(1) ne by (simp add: calc_fineness_def Let_def m mean_def rms_nearest_def)
qed

section \<open>Worked models\<close>

lemmas eval_defs = calc_fineness_def fineness_def sqdist_matrix_def msq_def madd_def delta_expand_def
  px_def py_def pz_def amax_def amin_def eye_def mscale_def min_axis0_def min_axis1_def cols_def mean_def
  model_of_def init_def Let_def

lemma sqrt9: "sqrt 9 = 3"
  using real_sqrt_abs[of 3] by simp

lemma calc_pair_x: "calc_fineness (model_of [(0,0,0),(1,0,0)]) = Inr 1"
  by (simp add: eval_defs)

lemma calc_pair_y: "calc_fineness (model_of [(0,0,0),(0,2,0)]) = Inr 2"
  by (simp add: eval_defs)

lemma calc_line3: "calc_fineness (model_of [(0,0,0),(1,0,0),(6,0,0)]) = Inr 3"
  by (simp add: eval_defs sqrt9)

lemma calc_twin: "calc_fineness (model_of [(0,0,0),(0,0,0)]) = Inr 0"
  by (simp add: eval_defs)

lemma fineness_fresh: "calc_fineness (model_of ps) = Inr f \<Longrightarrow>
   fineness (model_of ps) = Inr (f, (model_of ps)\<lparr>cached_fineness := Some f\<rparr>)"
  by (simp add: fineness_def model_of_def init_def)

lemma atoms_model_of: "atoms (model_of ps) = NdArray ps"
  by (simp add: model_of_def init_def)

text \<open>
  Claim C1 on the atoms \<open>(0,0,0), (1,0,0)\<close> against \<open>(0,0,0), (0,2,0)\<close>, of fineness 1
  and 2.
\<close>

theorem dist_formula_witness:
  "dist_sas (model_of [(0,0,0),(1,0,0)]) (model_of [(0,0,0),(0,2,0)])
     = Inr (Fin (nsd_spec [(0,0,0),(1,0,0)] [(0,0,0),(0,2,0)] 1 2),
            (model_of [(0,0,0),(1,0,0)])\<lparr>cached_fineness := Some 1\<rparr>,
            (model_of [(0,0,0),(0,2,0)])\<lparr>cached_fineness := Some 2\<rparr>)
   \<and> 0 \<le> nsd_spec [(0,0,0),(1,0,0)] [(0,0,0),(0,2,0)] 1 2"
  by (rule dist_formula[OF atoms_model_of atoms_model_of _ _
        fineness_fresh[OF calc_pair_x] fineness_fresh[OF calc_pair_y]]) simp_all

lemma fineness_spec_line3: "fineness_spec [(0,0,0),(1,0,0),(6,0,0)] = 7/3"
  by (simp add: fineness_spec_def nearest_other_def euclid_def px_def py_def pz_def upt_rec[of 0] upt_rec[of 1] upt_rec[of 2] upt_rec[of "Suc _"])

text \<open>
  Claim C2, that \<^verbatim>\<open>_calc_fineness\<close> returns the mean of the distances from each atom to
  its nearest other atom, is what the docstring of the method says (``the average distance
  between the neighboring points'') and fails on the code: for the atoms \<open>0, 1, 6\<close> on
  the x axis the nearest other atoms are at distances 1, 1 and 5, whose mean is 7/3, and
  \<^verbatim>\<open>_calc_fineness\<close> returns 3.
\<close>

theorem calc_fineness_not_mean:
  "calc_fineness (model_of [(0,0,0),(1,0,0),(6,0,0)]) = Inr 3
   \<and> fineness_spec [(0,0,0),(1,0,0),(6,0,0)] = 7/3
   \<and> calc_fineness (model_of [(0,0,0),(1,0,0),(6,0,0)]) \<noteq> Inr (fineness_spec [(0,0,0),(1,0,0),(6,0,0)])"
  by (simp add: calc_line3 fineness_spec_line3)

text \<open>
  What the code returns instead, for every model with at least two atoms: the mean is
  taken over the squared distances and the square root comes last, which gives the root
  mean square of the nearest-neighbour distances (lemma \<open>calc_fineness_value\<close>). The
  self-distance is excluded as the claim says.
\<close>

text \<open>
  Claim C7 as stated fails: the fineness of a model with the single atom \<open>(1,2,3)\<close> is
  computed without any error, and it is 0.
\<close>

theorem single_atom_fineness_counterexample:
  "fineness (model_of [(1,2,3)]) = Inr (0, (model_of [(1,2,3)])\<lparr>cached_fineness := Some 0\<rparr>)
   \<and> fineness (model_of [(1,2,3)]) \<noteq> Inl DegenerateModelError"
  by (simp add: eval_defs)

text \<open>
  Claim C7, amended. For a model with exactly one atom and an empty cache,
  \<^verbatim>\<open>_calc_fineness\<close> raises nothing and returns 0, and the property \<^verbatim>\<open>fineness\<close>
  returns 0 and caches it.
\<close>

theorem single_atom_fineness_zero:
  "atoms A = NdArray [p] \<Longrightarrow> cached_fineness A = None \<Longrightarrow>
     calc_fineness A = Inr 0 \<and> fineness A = Inr (0, A\<lparr>cached_fineness := Some 0\<rparr>)"
  by (simp add: calc_fineness_def fineness_def sqdist_matrix_def msq_def madd_def delta_expand_def
      amax_def amin_def eye_def mscale_def min_axis0_def cols_def mean_def Let_def)

text \<open>Claim C7, amended, on the single atom \<open>(1,2,3)\<close>.\<close>

theorem single_atom_fineness_zero_witness:
  "atoms (model_of [(1,2,3)]) = NdArray [(1,2,3)] \<and> cached_fineness (model_of [(1,2,3)]) = None
   \<and> calc_fineness (model_of [(1,2,3)]) = Inr 0
   \<and> fineness (model_of [(1,2,3)]) = Inr (0, (model_of [(1,2,3)])\<lparr>cached_fineness := Some 0\<rparr>)"
  using single_atom_fineness_zero[of "model_of [(1,2,3)]" "(1,2,3)"]
  by (simp add: model_of_def init_def)

lemma min_self_zero: "a \<in> set as \<Longrightarrow> Min ((\<lambda>b. sqd a b) ` set as) = 0"
  by (rule Min_eqI) (auto simp: sqd_nonneg intro: image_eqI[where x = a] simp: sqd_self)

lemma min_self_zero': "b \<in> set as \<Longrightarrow> Min ((\<lambda>a. sqd a b) ` set as) = 0"
  by (rule Min_eqI) (auto simp: sqd_nonneg intro: image_eqI[where x = b] simp: sqd_self)

lemma sum_min_self: "(\<Sum>a\<leftarrow>as. Min ((\<lambda>b. sqd a b) ` set as)) = 0"
proof -
  have "(\<Sum>a\<leftarrow>as. Min ((\<lambda>b. sqd a b) ` set as)) = (\<Sum>a\<leftarrow>as. (0::real))"
    by (intro arg_cong[where f = sum_list] map_cong refl min_self_zero)
  then show ?thesis by simp
qed

lemma sum_min_self': "(\<Sum>b\<leftarrow>as. Min ((\<lambda>a. sqd a b) ` set as)) = 0"
proof -
  have "(\<Sum>b\<leftarrow>as. Min ((\<lambda>a. sqd a b) ` set as)) = (\<Sum>a\<leftarrow>as. (0::real))"
    by (intro arg_cong[where f = sum_list] map_cong refl min_self_zero')
  then show ?thesis by simp
qed

text \<open>
  Claim C4 as stated fails: a model of two coincident atoms has fineness 0, and its
  discrepancy with a model of the same atoms is NaN (inf * 0), not 0.
\<close>

theorem dist_self_nan_counterexample:
  "dist_sas (model_of [(0,0,0),(0,0,0)]) (model_of [(0,0,0),(0,0,0)])
     = Inr (NaN, (model_of [(0,0,0),(0,0,0)])\<lparr>cached_fineness := Some 0\<rparr>,
                 (model_of [(0,0,0),(0,0,0)])\<lparr>cached_fineness := Some 0\<rparr>)"
  using dist_value[OF atoms_model_of atoms_model_of _ _ fineness_fresh[OF calc_twin] fineness_fresh[OF calc_twin]]
  by (simp add: np_recip_def sqd_self)

text \<open>
  Claim C4, amended. For two models holding the same atoms, at least two, whose fineness
  values are not zero, \<^verbatim>\<open>dist\<close> returns exactly 0.
\<close>

theorem dist_self_zero:
  assumes "atoms A = NdArray ps" "atoms B = NdArray ps" "2 \<le> length ps"
    and "fineness A = Inr (fA, A')" "fineness B = Inr (fB, B')"
    and "fA \<noteq> 0" "fB \<noteq> 0"
  shows "dist_sas A B = Inr (Fin 0, A', B')"
proof -
  have ne: "ps \<noteq> []" using assms(3) by auto
  show ?thesis
    using dist_finite[OF assms(1,2) ne ne assms(4-7)]
    by (simp add: sum_min_self sum_min_self')
qed

text \<open>Claim C4, amended, on the atoms \<open>(0,0,0), (1,0,0)\<close>, of fineness 1.\<close>

theorem dist_self_zero_witness:
  "dist_sas (model_of [(0,0,0),(1,0,0)]) (model_of [(0,0,0),(1,0,0)])
     = Inr (Fin 0, (model_of [(0,0,0),(1,0,0)])\<lparr>cached_fineness := Some 1\<rparr>,
                   (model_of [(0,0,0),(1,0,0)])\<lparr>cached_fineness := Some 1\<rparr>)"
  by (rule dist_self_zero[OF atoms_model_of atoms_model_of _
        fineness_fresh[OF calc_pair_x] fineness_fresh[OF calc_pair_x]]) simp_all


section \<open>The canonical position\<close>

lemma dot_hom:
  "dot A [map f0 ps, map f1 ps, map f2 ps, map f3 ps]
     = map (\<lambda>row. map (\<lambda>p. row ! 0 * f0 p + row ! 1 * f1 p + row ! 2 * f2 p + row ! 3 * f3 p) ps) A"
proof -
  have inner: "map (\<lambda>j. (\<Sum>k\<leftarrow>[0..<length [map f0 ps, map f1 ps, map f2 ps, map f3 ps]].
                   row ! k * [map f0 ps, map f1 ps, map f2 ps, map f3 ps] ! k ! j)) [0..<length ps]
        = map (\<lambda>p. row ! 0 * f0 p + row ! 1 * f1 p + row ! 2 * f2 p + row ! 3 * f3 p) ps" for row :: "real list"
    by (rule nth_equalityI) (simp_all add: numeral_eq_Suc)
  show ?thesis
    unfolding dot_def ncols_def using inner by simp
qed

lemma sum_centred: "ps \<noteq> [] \<Longrightarrow> (\<Sum>p\<leftarrow>ps. f p - mean (map f ps)) = (0::real)"
  by (simp add: sum_list_subtractf sum_list_triv mean_def)

lemma sum_linear3:
  "(\<Sum>p\<leftarrow>ps. a * F p + b * G p + c * H p + d * (0::real))
     = a * (\<Sum>p\<leftarrow>ps. F p) + b * (\<Sum>p\<leftarrow>ps. G p) + c * (\<Sum>p\<leftarrow>ps. H p)"
  by (simp add: sum_list_addf sum_list_const_mult)

lemma argsort3: "\<exists>i0 i1 i2. argsort (vec_list w) = [i0, i1, i2]"
proof -
  have "length (argsort (vec_list w)) = 3" by (simp add: argsort_def vec_list_def)
  then show ?thesis by (auto simp: numeral_eq_Suc length_Suc_conv)
qed

lemma rows_to_points_maps:
  "rows_to_points [map f0 ps, map f1 ps, map f2 ps] = map (\<lambda>p. (f0 p, f1 p, f2 p)) ps"
  unfolding rows_to_points_def ncols_def by (rule nth_equalityI) simp_all

lemma canonical_position_value:
  assumes "atoms m = NdArray ps" "ps \<noteq> []" "com m = ComVec c"
    and "inertensor m = Some t" "eigh t = Some (w, v)"
    and "argsort (vec_list w) = [i0, i1, i2]"
  shows "canonical_position eigh m
       = Inr (m\<lparr>atoms := NdArray (map (\<lambda>p. (rotated (column v i0) c p, rotated (column v i1) c p,
                                              rotated (column v i2) c p)) ps)\<rparr>)"
proof -
  have tr: "canonical_translate m = Inr [[1, 0, 0, - px c], [0, 1, 0, - py c], [0, 0, 1, - pz c], [0, 0, 0, 1]]"
    using assms(3) by (simp add: canonical_translate_def)
  have rot: "canonical_rotate eigh m
       = Inr [vec_list (column v i0) @ [0], vec_list (column v i1) @ [0], vec_list (column v i2) @ [0], [0, 0, 0, 1]]"
    using assms(4,5,6) by (simp add: canonical_rotate_def)
  have mol: "[map px ps, map py ps, map pz ps, replicate (length ps) 1]
           = [map px ps, map py ps, map pz ps, map (\<lambda>p. 1) ps]"
    by (simp add: map_replicate_const)
  have mol1: "dot [[1, 0, 0, - px c], [0, 1, 0, - py c], [0, 0, 1, - pz c], [0, 0, 0, 1]]
                  [map px ps, map py ps, map pz ps, replicate (length ps) 1]
            = [map (\<lambda>p. px p - px c) ps, map (\<lambda>p. py p - py c) ps, map (\<lambda>p. pz p - pz c) ps, map (\<lambda>p. 1) ps]"
    unfolding mol dot_hom by simp
  have mol2: "dot [vec_list (column v i0) @ [0], vec_list (column v i1) @ [0], vec_list (column v i2) @ [0], [0, 0, 0, 1]]
                  [map (\<lambda>p. px p - px c) ps, map (\<lambda>p. py p - py c) ps, map (\<lambda>p. pz p - pz c) ps, map (\<lambda>p. 1) ps]
            = [map (rotated (column v i0) c) ps, map (rotated (column v i1) c) ps,
               map (rotated (column v i2) c) ps, map (\<lambda>p. 1) ps]"
    unfolding dot_hom by (simp add: vec_list_def rotated_def)
  show ?thesis
    using assms(1,2)
    by (simp add: canonical_position_def tr rot mol1 mol2 Let_def rows_to_points_maps)
qed

lemma mean_rotated:
  assumes "ps \<noteq> []"
  shows "mean (map (rotated e (mean (map px ps), mean (map py ps), mean (map pz ps))) ps) = 0"
proof -
  let ?c = "(mean (map px ps), mean (map py ps), mean (map pz ps))"
  have "(\<Sum>p\<leftarrow>ps. rotated e ?c p)
      = px e * (\<Sum>p\<leftarrow>ps. px p - mean (map px ps)) + py e * (\<Sum>p\<leftarrow>ps. py p - mean (map py ps))
        + pz e * (\<Sum>p\<leftarrow>ps. pz p - mean (map pz ps))"
    unfolding rotated_def
    by (simp add: sum_list_addf sum_list_const_mult px_def[of "(_, _)"] py_def[of "(_, _)"] pz_def[of "(_, _)"])
  also have "\<dots> = 0" using assms by (simp add: sum_centred)
  finally show ?thesis by (simp add: mean_def comp_def)
qed

lemma centroid_array:
  "atoms m = NdArray ps \<Longrightarrow> ps \<noteq> [] \<Longrightarrow>
     centroid m = Inr (m\<lparr>com := ComVec (mean (map px ps), mean (map py ps), mean (map pz ps))\<rparr>)"
  by (simp add: centroid_def)

lemma inertiatensor_array:
  "atoms m = NdArray ps \<Longrightarrow> ps \<noteq> [] \<Longrightarrow> com m = ComVec c \<Longrightarrow>
     inertiatensor m = Inr (m\<lparr>inertensor := Some (tensor_of ps c)\<rparr>)"
  by (simp add: inertiatensor_def tensor_of_def Let_def)

lemma canonical_pose_centred:
  assumes "atoms m = NdArray ps" "ps \<noteq> []"
    and "centroid m = Inr m1" "inertiatensor m1 = Inr m2"
    and "inertensor m2 = Some t" "eigh t = Some (w, v)"
  shows "\<exists>m3. canonical_position eigh m2 = Inr m3 \<and> centroid m3 = Inr (m3\<lparr>com := ComVec (0, 0, 0)\<rparr>)"
proof -
  let ?c = "(mean (map px ps), mean (map py ps), mean (map pz ps))"
  have m1: "m1 = m\<lparr>com := ComVec ?c\<rparr>"
    using centroid_array[OF assms(1,2)] assms(3) by simp
  then have a1: "atoms m1 = NdArray ps" and c1: "com m1 = ComVec ?c" using assms(1) by simp_all
  have m2: "m2 = m1\<lparr>inertensor := Some (tensor_of ps ?c)\<rparr>"
    using inertiatensor_array[OF a1 assms(2) c1] assms(4) by simp
  then have a2: "atoms m2 = NdArray ps" and c2: "com m2 = ComVec ?c" using a1 c1 by simp_all
  obtain i0 i1 i2 where idx: "argsort (vec_list w) = [i0, i1, i2]" using argsort3 by blast
  let ?qs = "map (\<lambda>p. (rotated (column v i0) ?c p, rotated (column v i1) ?c p, rotated (column v i2) ?c p)) ps"
  have pos: "canonical_position eigh m2 = Inr (m2\<lparr>atoms := NdArray ?qs\<rparr>)"
    using a2 assms(2) c2 assms(5,6) idx by (rule canonical_position_value)
  have ne: "?qs \<noteq> []" using assms(2) by simp
  have "centroid (m2\<lparr>atoms := NdArray ?qs\<rparr>)
      = Inr (m2\<lparr>atoms := NdArray ?qs, com := ComVec (mean (map px ?qs), mean (map py ?qs), mean (map pz ?qs))\<rparr>)"
    using centroid_array[of "m2\<lparr>atoms := NdArray ?qs\<rparr>" ?qs] ne by simp
  moreover have "mean (map px ?qs) = 0" "mean (map py ?qs) = 0" "mean (map pz ?qs) = 0"
    using mean_rotated[OF assms(2)] by (simp_all add: comp_def px_def py_def pz_def)
  ultimately show ?thesis using pos by simp
qed

lemma eigh_example_valid:
  "eigh_example axes_tensor = Some (w, v) \<Longrightarrow> eigen_decomposition axes_tensor w v"
  by (auto simp: eigh_example_def eigen_decomposition_def axes_tensor_def mat_vec_def column_def coord_def
      inner3_def px_def py_def pz_def)

lemma centroid_axes:
  "centroid (model_of axes_atoms) = Inr ((model_of axes_atoms)\<lparr>com := ComVec (0, 0, 0)\<rparr>)"
  by (simp add: centroid_def model_of_def init_def axes_atoms_def mean_def px_def py_def pz_def)

lemma inertiatensor_axes:
  "inertiatensor ((model_of axes_atoms)\<lparr>com := ComVec (0, 0, 0)\<rparr>)
     = Inr ((model_of axes_atoms)\<lparr>com := ComVec (0, 0, 0), inertensor := Some axes_tensor\<rparr>)"
  by (simp add: inertiatensor_def model_of_def init_def axes_atoms_def tensor_entry_def delta_kron_def
      coord_def px_def py_def pz_def axes_tensor_def Let_def)

lemma argsort_example: "argsort (vec_list (1 / 2, 2, 5 / 2)) = [0, 1, 2]"
  by (simp add: argsort_def vec_list_def px_def py_def pz_def upt_rec[of 0] upt_rec[of 1] upt_rec[of 2]
       upt_rec[of "Suc _"] numeral_eq_Suc)

lemma det_example: "det [[0, 1, 0, 0], [1, 0, 0, 0], [0, 0, 1, 0], [0, 0, 0, 1]] = - 1"
  by (simp add: minor_cols_def numeral_eq_Suc)

lemma rotate_axes:
  "canonical_rotate eigh_example
         ((model_of axes_atoms)\<lparr>com := ComVec (0, 0, 0), inertensor := Some axes_tensor\<rparr>)
       = Inr [[0, 1, 0, 0], [1, 0, 0, 0], [0, 0, 1, 0], [0, 0, 0, 1]]"
  by (simp add: canonical_rotate_def eigh_example_def argsort_example)
     (simp add: vec_list_def column_def coord_def px_def py_def pz_def)

text \<open>
  Claim C3, that the matrix returned by \<^verbatim>\<open>canonical_rotate\<close> has determinant 1 for every
  model, fails on the code, whose docstring promises it: the method returns the sorted
  eigenvectors as they come. For the four atoms \<open>(1,0,0), (-1,0,0), (0,2,0), (0,-2,0)\<close>
  the inertia tensor is diagonal, the eigenvectors are the axes y, x, z in this order, and
  the matrix returned has determinant \<open>- 1\<close>.
\<close>

theorem canonical_rotate_improper:
  "centroid (model_of axes_atoms) = Inr ((model_of axes_atoms)\<lparr>com := ComVec (0, 0, 0)\<rparr>)
   \<and> inertiatensor ((model_of axes_atoms)\<lparr>com := ComVec (0, 0, 0)\<rparr>)
       = Inr ((model_of axes_atoms)\<lparr>com := ComVec (0, 0, 0), inertensor := Some axes_tensor\<rparr>)
   \<and> canonical_rotate eigh_example
         ((model_of axes_atoms)\<lparr>com := ComVec (0, 0, 0), inertensor := Some axes_tensor\<rparr>)
       = Inr [[0, 1, 0, 0], [1, 0, 0, 0], [0, 0, 1, 0], [0, 0, 0, 1]]
   \<and> det [[0, 1, 0, 0], [1, 0, 0, 0], [0, 0, 1, 0], [0, 0, 0, 1]] = - 1"
  by (intro conjI centroid_axes inertiatensor_axes rotate_axes det_example)

lemma centroid_tetra:
  "centroid (model_of tetra_atoms) = Inr ((model_of tetra_atoms)\<lparr>com := ComVec (1 / 4, 1 / 4, 1 / 4)\<rparr>)"
  by (simp add: centroid_def model_of_def init_def tetra_atoms_def mean_def px_def py_def pz_def)

text \<open>
  Claim C9. For a non-empty model whose centroid and inertia tensor have been computed
  (\<^verbatim>\<open>centroid\<close>, then \<^verbatim>\<open>inertiatensor\<close>), \<^verbatim>\<open>canonical_position\<close> returns wherever
  \<^verbatim>\<open>eigh\<close> does, and the centroid computed again on the new atoms is the zero vector;
  the centroid of the model with the atoms \<open>(0,0,0), (1,0,0), (0,1,0), (0,0,1)\<close> is
  \<open>(1/4, 1/4, 1/4)\<close>.
\<close>

theorem canonical_position_centroid_zero:
  assumes "atoms m = NdArray ps" "ps \<noteq> []"
    and "centroid m = Inr m1" "inertiatensor m1 = Inr m2"
    and "inertensor m2 = Some t" "eigh t = Some (w, v)"
  shows "(\<exists>m3. canonical_position eigh m2 = Inr m3 \<and> centroid m3 = Inr (m3\<lparr>com := ComVec (0, 0, 0)\<rparr>))
       \<and> centroid (model_of tetra_atoms)
           = Inr ((model_of tetra_atoms)\<lparr>com := ComVec (1 / 4, 1 / 4, 1 / 4)\<rparr>)"
proof -
  have "\<exists>m3. canonical_position eigh m2 = Inr m3 \<and> centroid m3 = Inr (m3\<lparr>com := ComVec (0, 0, 0)\<rparr>)"
    using assms by (rule canonical_pose_centred)
  then show ?thesis using centroid_tetra by (rule conjI)
qed

lemma eigh_example_axes:
  "eigh_example axes_tensor = Some ((1 / 2, 2, 5 / 2), ((0, 1, 0), (1, 0, 0), (0, 0, 1)))"
  by (simp add: eigh_example_def)

text \<open>Claim C9 on the four atoms on the axes x and y.\<close>

theorem canonical_position_centroid_zero_witness:
  "atoms (model_of axes_atoms) = NdArray axes_atoms \<and> axes_atoms \<noteq> []
   \<and> (\<exists>m3. canonical_position eigh_example
               ((model_of axes_atoms)\<lparr>com := ComVec (0, 0, 0), inertensor := Some axes_tensor\<rparr>) = Inr m3
           \<and> centroid m3 = Inr (m3\<lparr>com := ComVec (0, 0, 0)\<rparr>))"
proof -
  have ne: "axes_atoms \<noteq> []" by (simp add: axes_atoms_def)
  have t: "inertensor ((model_of axes_atoms)\<lparr>com := ComVec (0, 0, 0), inertensor := Some axes_tensor\<rparr>)
             = Some axes_tensor" by simp
  show ?thesis
    using canonical_position_centroid_zero[of "model_of axes_atoms" axes_atoms
        "(model_of axes_atoms)\<lparr>com := ComVec (0, 0, 0)\<rparr>"
        "(model_of axes_atoms)\<lparr>com := ComVec (0, 0, 0), inertensor := Some axes_tensor\<rparr>"
        axes_tensor eigh_example "(1 / 2, 2, 5 / 2)" "((0, 1, 0), (1, 0, 0), (0, 0, 1))"]
      atoms_model_of[of axes_atoms] ne centroid_axes inertiatensor_axes t eigh_example_axes
    by blast
qed

section \<open>The centroid of a model without atoms\<close>

lemma read_empty: "read pf init [] = Inr (init\<lparr>header := [], atoms := NdArray []\<rparr>)"
  by (simp add: read_def file_lines_def)

text \<open>
  Claim C6 as stated fails: reading the empty file gives the empty array of atoms, and
  \<^verbatim>\<open>centroid\<close> on it raises nothing and stores NaN.
\<close>

theorem centroid_empty_counterexample:
  "read (\<lambda>s. None) init [] = Inr (init\<lparr>header := [], atoms := NdArray []\<rparr>)
   \<and> centroid (init\<lparr>header := [], atoms := NdArray []\<rparr>)
       = Inr (init\<lparr>header := [], atoms := NdArray [], com := ComNaN\<rparr>)
   \<and> centroid (init\<lparr>header := [], atoms := NdArray []\<rparr>) \<noteq> Inl EmptyModelError"
  by (simp add: read_def file_lines_def centroid_def)

text \<open>
  Claim C6, amended. Computing the centroid of a model with zero atoms never fails with
  EmptyModelError: on the empty array that \<^verbatim>\<open>read\<close> builds it raises nothing and stores
  NaN as the centroid, and on the empty Python list of a model just constructed it fails
  with AttributeError.
\<close>

theorem centroid_zero_atoms:
  "(atoms m = NdArray [] \<longrightarrow> centroid m = Inr (m\<lparr>com := ComNaN\<rparr>))
   \<and> (atoms m = PyList \<longrightarrow> centroid m = Inl AttributeError)"
  by (simp add: centroid_def)

text \<open>Claim C6, amended, on a model just constructed, with and without the empty array.\<close>

theorem centroid_zero_atoms_witness:
  "atoms (init\<lparr>atoms := NdArray []\<rparr>) = NdArray []
   \<and> centroid (init\<lparr>atoms := NdArray []\<rparr>) = Inr (init\<lparr>atoms := NdArray [], com := ComNaN\<rparr>)
   \<and> atoms init = PyList \<and> centroid init = Inl AttributeError"
  using centroid_zero_atoms[of "init\<lparr>atoms := NdArray []\<rparr>"] centroid_zero_atoms[of init]
  by (simp add: init_def)

section \<open>Reading and saving\<close>

lemma fmt_8_3f_round:
  "round_half_even (\<bar>x\<bar> * 1000) = r \<Longrightarrow>
   fmt_8_3f x = (let fp = show_nat (r mod 1000);
                     s = (if x < 0 then ''-'' else []) @ show_nat (r div 1000) @ ''.''
                         @ replicate (3 - length fp) CHR ''0'' @ fp
                 in replicate (8 - length s) CHR '' '' @ s)"
  by (simp add: fmt_8_3f_def)







lemma atom_rank_Cons:
  "atom_rank (l # ls) (Suc i) = (if startswith l ''ATOM'' then 1 else 0) + atom_rank ls i"
  by (simp add: atom_rank_def)

lemma atom_rank_0: "atom_rank ls 0 = 0"
  by (simp add: atom_rank_def)

lemma save_loop_subst:
  "nr + length (filter (\<lambda>l. startswith l ''ATOM'') ls) \<le> length ps \<Longrightarrow>
   save_loop fmt (NdArray ps) ls nr
     = Inr (map (\<lambda>i. if startswith (ls ! i) ''ATOM''
                     then take 30 (ls ! i) @ fmt (ps ! (nr + atom_rank ls i)) @ drop 54 (ls ! i)
                     else ls ! i) [0..<length ls])"
proof (induction ls arbitrary: nr)
  case Nil
  then show ?case by simp
next
  case (Cons line rest)
  show ?case
  proof (cases "startswith line ''ATOM''")
    case True
    with Cons.prems have "Suc nr + length (filter (\<lambda>l. startswith l ''ATOM'') rest) \<le> length ps"
      and nr: "nr < length ps" by simp_all
    from Cons.IH[OF this(1)] True nr show ?thesis
      by (simp add: map_upt_Suc atom_rank_Cons atom_rank_0 del: upt_Suc)
  next
    case False
    with Cons.prems have "nr + length (filter (\<lambda>l. startswith l ''ATOM'') rest) \<le> length ps" by simp
    from Cons.IH[OF this] False show ?thesis
      by (simp add: map_upt_Suc atom_rank_Cons atom_rank_0 del: upt_Suc)
  qed
qed

lemma atom_rank_less:
  assumes "i < length hdr" "startswith (hdr ! i) ''ATOM''"
  shows "atom_rank hdr i < length (filter (\<lambda>l. startswith l ''ATOM'') hdr)"
proof -
  let ?P = "\<lambda>l. startswith l ''ATOM''"
  have "filter ?P hdr = filter ?P (take i hdr) @ filter ?P (drop i hdr)"
    using filter_append[of ?P "take i hdr" "drop i hdr"] by simp
  moreover have "drop i hdr = hdr ! i # drop (Suc i) hdr"
    using assms(1) by (simp add: Cons_nth_drop_Suc)
  ultimately have "length (filter ?P hdr) = length (filter ?P (take i hdr)) + Suc (length (filter ?P (drop (Suc i) hdr)))"
    using assms(2) by simp
  then show ?thesis by (simp add: atom_rank_def)
qed

text \<open>
  Claim C10. When the array of atoms holds more atoms than the header holds ATOM records,
  \<^verbatim>\<open>save\<close> raises nothing and writes the header line by line: each ATOM record with
  the formatted coordinates of the atom of its rank, which is below the number \<open>k\<close> of
  ATOM records, so that only the first \<open>k\<close> atoms are written, and every other line as
  it is.
\<close>

theorem save_more_atoms_than_records:
  assumes "atoms m = NdArray ps"
    and "length (filter (\<lambda>l. startswith l ''ATOM'') (header m)) < length ps"
  shows "save fmt m = Inr (concat (substituted fmt ps (header m)))
       \<and> (\<forall>i<length (header m). startswith (header m ! i) ''ATOM'' \<longrightarrow>
              atom_rank (header m) i < length (filter (\<lambda>l. startswith l ''ATOM'') (header m)))"
proof -
  have "0 + length (filter (\<lambda>l. startswith l ''ATOM'') (header m)) \<le> length ps" using assms(2) by simp
  from save_loop_subst[OF this] have "save fmt m = Inr (concat (substituted fmt ps (header m)))"
    using assms(1) by (simp add: save_def substituted_def cong: if_cong)
  then show ?thesis using atom_rank_less by blast
qed

lemma good_lines: "file_lines good_file =
   [''REMARK   test model\<newline>'',
    ''ATOM      1  CA  ASP A   1      12.345  -2.000   0.500  1.00 20.00\<newline>'',
    ''END\<newline>'']"
  by (simp add: good_file_def file_lines_def)



lemma r_12345: "round_half_even (\<bar>12.345\<bar> * 1000) = 12345"
  by (simp add: round_half_even_def Let_def)

lemma r_2000: "round_half_even (\<bar>- 2\<bar> * 1000) = 2000"
  by (simp add: round_half_even_def Let_def)

lemma r_500: "round_half_even (\<bar>1 / 2\<bar> * 1000) = 500"
  by (simp add: round_half_even_def Let_def)

lemma fmt_12345: "fmt_8_3f 12.345 = ''  12.345''"
  using fmt_8_3f_round[OF r_12345] by (simp add: show_nat.simps) (simp add: numeral_eq_Suc)

lemma fmt_m2: "fmt_8_3f (- 2) = ''  -2.000''"
  using fmt_8_3f_round[OF r_2000] by (simp add: show_nat.simps) (simp add: numeral_eq_Suc)

lemma fmt_half: "fmt_8_3f (1 / 2) = ''   0.500''"
  using fmt_8_3f_round[OF r_500] by (simp add: show_nat.simps) (simp add: numeral_eq_Suc)

lemma fmt_good: "fmt_atom (12.345, - 2, 1 / 2) = ''  12.345  -2.000   0.500''"
  by (simp add: fmt_atom_def px_def py_def pz_def fmt_12345[simplified] fmt_m2 fmt_half)


text \<open>
  A carriage return does not come back: the file \<open>REMARK\<close> with a carriage return and a
  line feed is read as one line ending in a line feed, and saved so.
\<close>

lemma crlf_not_written_back:
  "read pyfloat init (''REMARK'' @ [CHR 0x0D, CHR 0x0A])
     = Inr (init\<lparr>header := [''REMARK\<newline>''], atoms := NdArray []\<rparr>)
   \<and> save fmt (init\<lparr>header := [''REMARK\<newline>''], atoms := NdArray []\<rparr>) = Inr ''REMARK\<newline>''"
  by (simp add: read_def file_lines_def save_def startswith_def)














lemma save_two_atom_model: "save fmt_atom two_atom_model = Inr good_file"
  by (simp add: two_atom_model_def save_def good_lines startswith_def fmt_good[simplified])
     (simp add: good_file_def)

text \<open>Claim C10 on a header with one ATOM record and an array of two atoms.\<close>

theorem save_more_atoms_than_records_witness:
  "atoms two_atom_model = NdArray [(12.345, - 2, 1 / 2), (7, 8, 9)]
   \<and> length (filter (\<lambda>l. startswith l ''ATOM'') (header two_atom_model)) = 1
   \<and> save fmt_atom two_atom_model
       = Inr (concat (substituted fmt_atom [(12.345, - 2, 1 / 2), (7, 8, 9)] (header two_atom_model)))
   \<and> save fmt_atom two_atom_model = Inr good_file"
proof -
  have a: "atoms two_atom_model = NdArray [(12.345, - 2, 1 / 2), (7, 8, 9)]"
    by (simp add: two_atom_model_def)
  have k: "length (filter (\<lambda>l. startswith l ''ATOM'') (header two_atom_model)) = 1"
    by (simp add: two_atom_model_def good_lines startswith_def)
  then have lt: "length (filter (\<lambda>l. startswith l ''ATOM'') (header two_atom_model))
                  < length [(12.345::real, - 2::real, 1 / 2::real), (7, 8, 9)]" by simp
  show ?thesis
    using save_more_atoms_than_records[OF a lt, of fmt_atom] a k save_two_atom_model by blast
qed

end
